theory Spec2Isabelle
  imports Complex_Main
begin

section \<open>GPX distance and map generation (src/app.py)\<close>

text \<open>
  The program reads trip records from a spreadsheet, looks up one GPX file per record,
  sums the 2D length of the file's segments into a distance in km, draws one polyline per
  segment on a folium map and keeps the newest map files.

  Conventions of the embedding:
  \<^item> Python's \<open>float\<close> is modelled by \<open>real\<close>: the operations are the exact ones,
    rounding of the binary representation is not modelled;
  \<^item> an exception is a value \<open>Raised cls msg\<close>; a function that can raise returns
    \<open>py_exception + 'a\<close>, with \<open>Inl\<close> for the exception that leaves the function;
  \<^item> the file system is a partial map from paths to what \<open>open\<close> and
    \<open>gpxpy.parse\<close> meet there; a path outside the map is one on which \<open>open\<close>
    raises \<open>FileNotFoundError\<close>;
  \<^item> \<open>print\<close> only writes to the console and is left out.
\<close>

subsection \<open>Exceptions\<close>

text \<open>
  \<open>OSError\<close> stands for the operating system errors that are not a
  \<open>FileNotFoundError\<close> (\<open>NotADirectoryError\<close>, \<open>PermissionError\<close>,
  \<open>IsADirectoryError\<close>, a file name that is too long).
\<close>

datatype exc_class =
  FileNotFoundError | OSError | KeyError | ValueError | GPXException | OtherException

datatype py_exception = Raised exc_class string

text \<open>\<open>str(e)\<close>, and the class of an exception (what an \<open>except\<close> clause looks at).\<close>

fun str_exc :: "py_exception \<Rightarrow> string" where
  "str_exc (Raised c msg) = msg"

fun exc_class_of :: "py_exception \<Rightarrow> exc_class" where
  "exc_class_of (Raised c msg) = c"

subsection \<open>GPX documents\<close>

record point =
  latitude :: real
  longitude :: real

record segment =
  points :: "point list"

record track =
  segments :: "segment list"

record gpx =
  tracks :: "track list"

text \<open>
  What \<open>open\<close> and \<open>gpxpy.parse\<close> meet at a path. A path outside the map has no
  file and \<open>open\<close> raises \<open>FileNotFoundError\<close> on it. Inside the map:
  \<^item> \<open>Unreachable\<close>: there is no file at the path either, but \<open>open\<close> fails in
    another way: a component of the path is a regular file (\<open>NotADirectoryError\<close>), or
    a name is too long (\<open>OSError\<close>);
  \<^item> \<open>Unreadable\<close>: the path exists and \<open>open\<close> cannot read it
    (\<open>PermissionError\<close>, \<open>IsADirectoryError\<close>);
  \<^item> \<open>Malformed\<close>: a file whose text \<open>gpxpy.parse\<close> rejects;
  \<^item> \<open>Document\<close>: a file that parses into the document.
\<close>

datatype path_entry = Unreachable | Unreadable | Malformed | Document gpx

type_synonym filesystem = "string \<rightharpoonup> path_entry"

text \<open>\<open>os.path.exists\<close>.\<close>

definition path_exists :: "filesystem \<Rightarrow> string \<Rightarrow> bool" where
  "path_exists fs file_path =
     (case fs file_path of
        None \<Rightarrow> False
      | Some Unreachable \<Rightarrow> False
      | Some entry \<Rightarrow> True)"

text \<open>
  \<open>with open(file_path, "r") as gpx_file: gpx = gpxpy.parse(gpx_file)\<close>, the head of
  both \<open>try\<close> blocks.
\<close>

definition open_and_parse :: "filesystem \<Rightarrow> string \<Rightarrow> py_exception + gpx" where
  "open_and_parse fs file_path =
     (case fs file_path of
        None \<Rightarrow> Inl (Raised FileNotFoundError ''No such file or directory'')
      | Some Unreachable \<Rightarrow> Inl (Raised OSError ''Not a directory'')
      | Some Unreadable \<Rightarrow> Inl (Raised OSError ''Permission denied'')
      | Some Malformed \<Rightarrow> Inl (Raised GPXException ''Error parsing XML'')
      | Some (Document g) \<Rightarrow> Inr g)"

text \<open>
  Modelled from the spec: \<open>segment.length_2d()\<close> belongs to the gpxpy library, which is
  not part of the repository. It walks the pairs of consecutive points
  (\<open>zip(locations, locations[1:])\<close>) and adds up the 2D distance of each pair, starting
  from 0. The distance between two points (gpxpy's \<open>distance_2d\<close>) is the parameter
  \<open>distance_2d\<close>.
\<close>

definition length_2d :: "(point \<Rightarrow> point \<Rightarrow> real) \<Rightarrow> segment \<Rightarrow> real" where
  "length_2d distance_2d seg =
     foldl (\<lambda>len (previous, loc). len + distance_2d loc previous) 0
       (zip (points seg) (tl (points seg)))"

subsection \<open>compute_gpx_distance\<close>

text \<open>
  The two nested \<open>for\<close> loops add \<open>segment.length_2d()\<close> to \<open>total_distance\<close>, track
  by track and segment by segment.
\<close>

definition segments_distance :: "(point \<Rightarrow> point \<Rightarrow> real) \<Rightarrow> real \<Rightarrow> segment list \<Rightarrow> real" where
  "segments_distance distance_2d total_distance segs =
     foldl (\<lambda>total seg. total + length_2d distance_2d seg) total_distance segs"

definition tracks_distance :: "(point \<Rightarrow> point \<Rightarrow> real) \<Rightarrow> real \<Rightarrow> track list \<Rightarrow> real" where
  "tracks_distance distance_2d total_distance trks =
     foldl (\<lambda>total trk. segments_distance distance_2d total (segments trk)) total_distance trks"

text \<open>
  The \<open>except\<close> clause catches an exception of the class \<open>FileNotFoundError\<close>: the
  total is still 0.0 then. Any other exception of the block (another error of \<open>open\<close>, a
  parse error) leaves the function. The result is the total divided by 1000.
\<close>

definition compute_gpx_distance ::
  "(point \<Rightarrow> point \<Rightarrow> real) \<Rightarrow> filesystem \<Rightarrow> string \<Rightarrow> py_exception + real" where
  "compute_gpx_distance distance_2d fs file_path =
     (case open_and_parse fs file_path of
        Inl e \<Rightarrow> if exc_class_of e = FileNotFoundError then Inr (0 / 1000) else Inl e
      | Inr g \<Rightarrow> Inr (tracks_distance distance_2d 0 (tracks g) / 1000))"

subsection \<open>Formatting\<close>

text \<open>
  The format specification \<open>.2f\<close>: the value rounded to two decimals, ties to the even
  neighbour, written with a sign, the integer digits, a point and two digits.
\<close>

definition round_half_even :: "real \<Rightarrow> int" where
  "round_half_even x =
     (let f = \<lfloor>x\<rfloor>; r = x - of_int f
      in if r < 1 / 2 then f else if 1 / 2 < r then f + 1 else if even f then f else f + 1)"

definition digit_char :: "nat \<Rightarrow> char" where
  "digit_char d = ''0123456789'' ! d"

fun str_nat :: "nat \<Rightarrow> string" where
  "str_nat n = (if n < 10 then [digit_char n] else str_nat (n div 10) @ [digit_char (n mod 10)])"

declare str_nat.simps [simp del]

definition format_2f :: "real \<Rightarrow> string" where
  "format_2f x =
     (let n = nat (round_half_even (\<bar>x\<bar> * 100))
      in (if x < 0 then ''-'' else []) @ str_nat (n div 100) @ ''.'' @
         [digit_char (n mod 100 div 10), digit_char (n mod 10)])"

text \<open>\<open>round(x, 2)\<close>, with the same rounding.\<close>

definition round_2 :: "real \<Rightarrow> real" where
  "round_2 x = of_int (round_half_even (x * 100)) / 100"

text \<open>\<open>os.path.join\<close> of two components (POSIX).\<close>

definition path_join :: "string \<Rightarrow> string \<Rightarrow> string" where
  "path_join a b =
     (if b \<noteq> [] \<and> hd b = CHR ''/'' then b
      else if a = [] \<or> last a = CHR ''/'' then a @ b
      else a @ ''/'' @ b)"

subsection \<open>create_map\<close>

text \<open>
  A row of the data frame maps a column name to the text that an f-string makes of the
  cell. \<open>row[key]\<close> raises \<open>KeyError\<close> when the column is missing; \<open>row.get\<close> has
  a default.
\<close>

type_synonym row = "string \<rightharpoonup> string"

definition getitem :: "row \<Rightarrow> string \<Rightarrow> py_exception + string" where
  "getitem r key =
     (case r key of
        None \<Rightarrow> Inl (Raised KeyError ([CHR 0x27] @ key @ [CHR 0x27]))
      | Some v \<Rightarrow> Inr v)"

definition get_default :: "row \<Rightarrow> string \<Rightarrow> string \<Rightarrow> string" where
  "get_default r key dflt = (case r key of None \<Rightarrow> dflt | Some v \<Rightarrow> v)"

text \<open>
  The folium objects are the values they are built from: a polyline is its locations, its
  style and its tooltip; a map is its view and the children added to it, in the order of
  the \<open>add_to\<close> calls.
\<close>

record poly_line =
  locations :: "(real \<times> real) list"
  color :: string
  weight :: nat
  opacity :: real
  tooltip :: string

record folium_map =
  location :: "real \<times> real"
  zoom_start :: nat
  tiles :: string
  children :: "poly_line list"

text \<open>
  \<open>folium.PolyLine\<close> belongs to the folium library, which validates the locations it is
  given and raises \<open>ValueError\<close> on a sequence it rejects. Which sequences it accepts is
  the library's matter: the parameter \<open>valid_locations\<close>.
\<close>

definition PolyLine ::
  "((real \<times> real) list \<Rightarrow> bool) \<Rightarrow> (real \<times> real) list \<Rightarrow> string \<Rightarrow> nat \<Rightarrow> real \<Rightarrow> string
     \<Rightarrow> py_exception + poly_line" where
  "PolyLine valid_locations locs c w opac tip =
     (if valid_locations locs
      then Inr \<lparr>locations = locs, color = c, weight = w, opacity = opac, tooltip = tip\<rparr>
      else Inl (Raised ValueError ''Locations is empty.''))"

definition add_to :: "poly_line \<Rightarrow> folium_map \<Rightarrow> folium_map" where
  "add_to line m = m\<lparr>children := children m @ [line]\<rparr>"

text \<open>The loop over the segments of a track, and the loop over the tracks of a file.\<close>

fun add_segments ::
  "((real \<times> real) list \<Rightarrow> bool) \<Rightarrow> string \<Rightarrow> folium_map \<Rightarrow> segment list
     \<Rightarrow> py_exception + folium_map" where
  "add_segments valid_locations tip m [] = Inr m"
| "add_segments valid_locations tip m (seg # segs) =
     (case PolyLine valid_locations (map (\<lambda>p. (latitude p, longitude p)) (points seg))
             ''blue'' 4 0.9 tip of
        Inl e \<Rightarrow> Inl e
      | Inr line \<Rightarrow> add_segments valid_locations tip (add_to line m) segs)"

fun add_tracks ::
  "((real \<times> real) list \<Rightarrow> bool) \<Rightarrow> string \<Rightarrow> folium_map \<Rightarrow> track list
     \<Rightarrow> py_exception + folium_map" where
  "add_tracks valid_locations tip m [] = Inr m"
| "add_tracks valid_locations tip m (trk # trks) =
     (case add_segments valid_locations tip m (segments trk) of
        Inl e \<Rightarrow> Inl e
      | Inr m' \<Rightarrow> add_tracks valid_locations tip m' trks)"

text \<open>
  The \<open>try\<close> block of the loop body: a \<open>FileNotFoundError\<close> is caught and leaves
  the map as it is; any other exception (another error of \<open>open\<close>, a parse error, the
  \<open>ValueError\<close> of \<open>folium.PolyLine\<close>) leaves \<open>create_map\<close>.
\<close>

definition draw_file ::
  "((real \<times> real) list \<Rightarrow> bool) \<Rightarrow> filesystem \<Rightarrow> string \<Rightarrow> string \<Rightarrow> folium_map
     \<Rightarrow> py_exception + folium_map" where
  "draw_file valid_locations fs file_path tip m =
     (case open_and_parse fs file_path of
        Inl e \<Rightarrow> if exc_class_of e = FileNotFoundError then Inr m else Inl e
      | Inr g \<Rightarrow> add_tracks valid_locations tip m (tracks g))"

text \<open>The body of the loop over the rows, on the map and the running total.\<close>

definition process_row ::
  "(point \<Rightarrow> point \<Rightarrow> real) \<Rightarrow> ((real \<times> real) list \<Rightarrow> bool) \<Rightarrow> filesystem \<Rightarrow> string
     \<Rightarrow> folium_map \<times> real \<Rightarrow> row \<Rightarrow> py_exception + folium_map \<times> real" where
  "process_row distance_2d valid_locations fs gpx_folder st r =
     (case getitem r ''GPX file ID'' of
        Inl e \<Rightarrow> Inl e
      | Inr ident \<Rightarrow>
          (let route_id = ''route'' @ ident in
           case getitem r ''Date (walk)'' of
             Inl e \<Rightarrow> Inl e
           | Inr date \<Rightarrow>
               (let comment = get_default r ''Comments'' [];
                    file_path = path_join gpx_folder (route_id @ ''.gpx'')
                in case compute_gpx_distance distance_2d fs file_path of
                     Inl e \<Rightarrow> Inl e
                   | Inr walked_distance \<Rightarrow>
                       (let total_walked_distance = snd st + walked_distance;
                            tip = date @ '': '' @ comment @ '' ('' @
                                  format_2f walked_distance @ '' km)''
                        in case draw_file valid_locations fs file_path tip (fst st) of
                             Inl e \<Rightarrow> Inl e
                           | Inr m \<Rightarrow> Inr (m, total_walked_distance)))))"

fun process_rows ::
  "(point \<Rightarrow> point \<Rightarrow> real) \<Rightarrow> ((real \<times> real) list \<Rightarrow> bool) \<Rightarrow> filesystem \<Rightarrow> string
     \<Rightarrow> folium_map \<times> real \<Rightarrow> row list \<Rightarrow> py_exception + folium_map \<times> real" where
  "process_rows distance_2d valid_locations fs gpx_folder st [] = Inr st"
| "process_rows distance_2d valid_locations fs gpx_folder st (r # rs) =
     (case process_row distance_2d valid_locations fs gpx_folder st r of
        Inl e \<Rightarrow> Inl e
      | Inr st' \<Rightarrow> process_rows distance_2d valid_locations fs gpx_folder st' rs)"

definition create_map ::
  "(point \<Rightarrow> point \<Rightarrow> real) \<Rightarrow> ((real \<times> real) list \<Rightarrow> bool) \<Rightarrow> filesystem \<Rightarrow> row list \<Rightarrow> string
     \<Rightarrow> py_exception + folium_map \<times> real" where
  "create_map distance_2d valid_locations fs df gpx_folder =
     process_rows distance_2d valid_locations fs gpx_folder
       (\<lparr>location = (40.7831, - 73.9712), zoom_start = 12, tiles = ''CartoDB positron'',
         children = []\<rparr>, 0) df"

subsection \<open>cleanup_old_maps\<close>

text \<open>
  The maps folder, when it exists, is the list of its files in the order \<open>os.listdir\<close>
  returns them, each with its creation time (\<open>os.path.getctime\<close>). The entries are
  regular files.
\<close>

type_synonym 't directory = "(string \<times> 't) list"

definition endswith :: "string \<Rightarrow> string \<Rightarrow> bool" where
  "endswith s suf = (length suf \<le> length s \<and> drop (length s - length suf) s = suf)"

text \<open>
  \<open>sorted(xs, key=..., reverse=True)\<close>: descending keys; the sort is stable, and entries
  with equal keys keep their original order under \<open>reverse=True\<close> too.
\<close>

definition sorted_reverse :: "('a \<Rightarrow> 'k::linorder) \<Rightarrow> 'a list \<Rightarrow> 'a list" where
  "sorted_reverse key xs = rev (sort_key key (rev xs))"

text \<open>The slice \<open>xs[k:]\<close>; a negative \<open>k\<close> counts from the end.\<close>

definition slice_from :: "int \<Rightarrow> 'a list \<Rightarrow> 'a list" where
  "slice_from k xs =
     (if k < 0 then drop (nat (int (length xs) + k)) xs else drop (nat k) xs)"

definition os_remove :: "string \<Rightarrow> 't directory \<Rightarrow> 't directory" where
  "os_remove name entries = filter (\<lambda>e. fst e \<noteq> name) entries"

text \<open>
  The names ending in \<open>.html\<close> are sorted by creation time, newest first (the key of a
  name is the creation time the folder lists with it); the names after the first
  \<open>keep_latest\<close> are removed one by one. A folder that does not exist is left alone.
\<close>

definition cleanup_old_maps :: "int \<Rightarrow> ('t::linorder) directory option \<Rightarrow> 't directory option" where
  "cleanup_old_maps keep_latest maps_folder =
     (case maps_folder of
        None \<Rightarrow> None
      | Some entries \<Rightarrow>
          (let files = map fst (sorted_reverse snd
                         (filter (\<lambda>e. endswith (fst e) ''.html'') entries))
           in Some (foldl (\<lambda>folder old_file. os_remove old_file folder) entries
                      (slice_from keep_latest files))))"

subsection \<open>generate_map\<close>

text \<open>
  What \<open>generate_map\<close> reads from outside: the environment variables, whether the key
  file text is accepted, what the spreadsheet returns for a URL, the GPX files, the two
  library parameters, whether saving fails, the maps folder, and the clock (the two
  \<open>strftime\<close> texts and the creation time of a file written now).
\<close>

record world =
  environ :: "string \<rightharpoonup> string"
  base_dir :: string
  keyfile_error :: "string \<Rightarrow> py_exception option"
  spreadsheet :: "string \<Rightarrow> py_exception + row list"
  gpx_files :: filesystem
  point_distance :: "point \<Rightarrow> point \<Rightarrow> real"
  folium_accepts :: "(real \<times> real) list \<Rightarrow> bool"
  save_error :: "py_exception option"
  maps_folder :: "real directory option"
  timestamp :: string
  today :: string
  now_ctime :: real

datatype py_value = Bool bool | Str string | Float real

type_synonym py_dict = "(string \<times> py_value) list"

text \<open>
  \<open>GPXMapGenerator()\<close>: the constructor reads the credentials from the environment and
  raises \<open>ValueError\<close> when the variable is unset or empty; \<open>json.loads\<close> and the
  key file reader may raise on its text.
\<close>

definition get_credentials_from_env :: "world \<Rightarrow> py_exception + string" where
  "get_credentials_from_env w =
     (case environ w ''GOOGLE_SHEETS_CREDENTIALS'' of
        None \<Rightarrow>
          Inl (Raised ValueError ''GOOGLE_SHEETS_CREDENTIALS environment variable not set'')
      | Some credentials_json \<Rightarrow>
          if credentials_json = []
          then Inl (Raised ValueError ''GOOGLE_SHEETS_CREDENTIALS environment variable not set'')
          else (case keyfile_error w credentials_json of
                  Some e \<Rightarrow> Inl e
                | None \<Rightarrow> Inr credentials_json))"

definition GPXMapGenerator :: "world \<Rightarrow> py_exception + string" where
  "GPXMapGenerator w = get_credentials_from_env w"

text \<open>
  \<open>m.save(map_path)\<close> writes the file into the maps folder: it fails when the folder
  does not exist or when writing fails.
\<close>

definition save :: "world \<Rightarrow> string \<Rightarrow> py_exception + real directory option" where
  "save w map_filename =
     (case save_error w of
        Some e \<Rightarrow> Inl e
      | None \<Rightarrow>
          (case maps_folder w of
             None \<Rightarrow> Inl (Raised FileNotFoundError ''No such file or directory'')
           | Some entries \<Rightarrow>
               Inr (Some (os_remove map_filename entries @ [(map_filename, now_ctime w)]))))"

text \<open>The body of the \<open>try\<close> block.\<close>

definition generate_map_body ::
  "world \<Rightarrow> string \<Rightarrow> py_exception + py_dict \<times> real directory option" where
  "generate_map_body w sheet_url =
     (case spreadsheet w sheet_url of
        Inl e \<Rightarrow> Inl e
      | Inr df \<Rightarrow>
          (case create_map (point_distance w) (folium_accepts w) (gpx_files w) df
                  (path_join (base_dir w) ''gpx_files'') of
             Inl e \<Rightarrow> Inl e
           | Inr (m, total_walked_distance) \<Rightarrow>
               (let map_filename = ''gpx_map_'' @ timestamp w @ ''.html''
                in case save w map_filename of
                     Inl e \<Rightarrow> Inl e
                   | Inr folder \<Rightarrow>
                       Inr ([(''success'', Bool True),
                             (''map_file'', Str map_filename),
                             (''total_distance'', Float (round_2 total_walked_distance)),
                             (''timestamp'', Str (today w))],
                            cleanup_old_maps 5 folder))))"

text \<open>
  \<open>generate_map\<close> returns a dictionary, together with the maps folder it leaves behind.
  The generator is constructed before the \<open>try\<close> block; \<open>except Exception\<close> turns an
  exception of the block into a failure dictionary.
\<close>

definition generate_map :: "world \<Rightarrow> py_exception + py_dict \<times> real directory option" where
  "generate_map w =
     (case environ w ''SHEET_URL'' of
        None \<Rightarrow>
          Inr ([(''success'', Bool False),
                (''error'', Str ''SHEET_URL environment variable not set'')], maps_folder w)
      | Some sheet_url \<Rightarrow>
          if sheet_url = []
          then Inr ([(''success'', Bool False),
                     (''error'', Str ''SHEET_URL environment variable not set'')], maps_folder w)
          else (case GPXMapGenerator w of
                  Inl e \<Rightarrow> Inl e
                | Inr generator \<Rightarrow>
                    (case generate_map_body w sheet_url of
                       Inl e \<Rightarrow>
                         Inr ([(''success'', Bool False), (''error'', Str (str_exc e))],
                              maps_folder w)
                     | Inr result \<Rightarrow> Inr result)))"

subsection \<open>What the map and the total are expected to hold\<close>

text \<open>
  The file path of a record: \<open>route<id>.gpx\<close> inside the folder.
\<close>

definition gpx_path :: "string \<Rightarrow> string \<Rightarrow> string" where
  "gpx_path gpx_folder ident = path_join gpx_folder ((''route'' @ ident) @ ''.gpx'')"

text \<open>
  The distance of a record: \<open>compute_gpx_distance\<close> on its file path, when the record
  names a file and the computation returns.
\<close>

definition record_distance ::
  "(point \<Rightarrow> point \<Rightarrow> real) \<Rightarrow> filesystem \<Rightarrow> string \<Rightarrow> row \<Rightarrow> real option" where
  "record_distance distance_2d fs gpx_folder r =
     (case r ''GPX file ID'' of
        None \<Rightarrow> None
      | Some ident \<Rightarrow>
          (case compute_gpx_distance distance_2d fs (gpx_path gpx_folder ident) of
             Inl e \<Rightarrow> None
           | Inr x \<Rightarrow> Some x))"

text \<open>
  The segments of a file, track by track and, within a track, segment by segment; a path
  without a document has none. The locations of a segment are its points in their order.
\<close>

definition file_segments :: "filesystem \<Rightarrow> string \<Rightarrow> segment list" where
  "file_segments fs file_path =
     (case fs file_path of
        Some (Document g) \<Rightarrow> concat (map segments (tracks g))
      | _ \<Rightarrow> [])"

definition segment_locations :: "segment \<Rightarrow> (real \<times> real) list" where
  "segment_locations seg = map (\<lambda>p. (latitude p, longitude p)) (points seg)"

definition record_segments :: "filesystem \<Rightarrow> string \<Rightarrow> row \<Rightarrow> segment list" where
  "record_segments fs gpx_folder r =
     (case r ''GPX file ID'' of
        None \<Rightarrow> []
      | Some ident \<Rightarrow> file_segments fs (gpx_path gpx_folder ident))"

text \<open>The tooltip of a record, as the specification words it.\<close>

definition tooltip_text :: "string \<Rightarrow> string \<Rightarrow> real \<Rightarrow> string" where
  "tooltip_text date comment distance_km =
     date @ '': '' @ comment @ '' ('' @ format_2f distance_km @ '' km)''"

definition segment_line :: "string \<Rightarrow> segment \<Rightarrow> poly_line" where
  "segment_line tip seg =
     \<lparr>locations = segment_locations seg, color = ''blue'', weight = 4, opacity = 0.9,
      tooltip = tip\<rparr>"

text \<open>
  Whether the file of a record is absent in the way the loop recovers from: \<open>open\<close>
  finds no file and raises \<open>FileNotFoundError\<close>.
\<close>

definition file_absent :: "filesystem \<Rightarrow> string \<Rightarrow> row \<Rightarrow> bool" where
  "file_absent fs gpx_folder r =
     (case r ''GPX file ID'' of
        None \<Rightarrow> False
      | Some ident \<Rightarrow> fs (gpx_path gpx_folder ident) = None)"

subsection \<open>Example data\<close>

text \<open>
  A point distance for the examples: 1000 m per degree, along the grid. The library
  parameter of \<open>folium.PolyLine\<close> in the examples rejects the empty sequence.
\<close>

definition grid_distance :: "point \<Rightarrow> point \<Rightarrow> real" where
  "grid_distance a b =
     1000 * (\<bar>latitude a - latitude b\<bar> + \<bar>longitude a - longitude b\<bar>)"

definition accepts_nonempty :: "(real \<times> real) list \<Rightarrow> bool" where
  "accepts_nonempty locs = (locs \<noteq> [])"

definition route1 :: gpx where
  "route1 =
     \<lparr>tracks =
        [\<lparr>segments =
            [\<lparr>points = [\<lparr>latitude = 0, longitude = 0\<rparr>, \<lparr>latitude = 0, longitude = 1\<rparr>,
                        \<lparr>latitude = 1, longitude = 1\<rparr>]\<rparr>,
             \<lparr>points = [\<lparr>latitude = 2, longitude = 2\<rparr>, \<lparr>latitude = 2, longitude = 3\<rparr>]\<rparr>]\<rparr>,
         \<lparr>segments = [\<lparr>points = [\<lparr>latitude = 4, longitude = 4\<rparr>]\<rparr>]\<rparr>]\<rparr>"

definition route3 :: gpx where
  "route3 =
     \<lparr>tracks =
        [\<lparr>segments =
            [\<lparr>points = [\<lparr>latitude = 0, longitude = 0\<rparr>,
                        \<lparr>latitude = 3.456, longitude = 0\<rparr>]\<rparr>]\<rparr>]\<rparr>"

definition route5 :: gpx where
  "route5 =
     \<lparr>tracks =
        [\<lparr>segments = [\<lparr>points = [\<lparr>latitude = 7, longitude = 8\<rparr>]\<rparr>, \<lparr>points = []\<rparr>]\<rparr>,
         \<lparr>segments = []\<rparr>]\<rparr>"

definition example_files :: filesystem where
  "example_files =
     [''gpx_files/route1.gpx'' \<mapsto> Document route1,
      ''gpx_files/route3.gpx'' \<mapsto> Document route3,
      ''gpx_files/route4.gpx'' \<mapsto> Malformed,
      ''gpx_files/route5.gpx'' \<mapsto> Document route5,
      ''gpx_files/route1.gpx/x.gpx'' \<mapsto> Unreachable]"

text \<open>Three records; the file of the second one does not exist.\<close>

definition record1 :: row where
  "record1 =
     [''GPX file ID'' \<mapsto> ''1'', ''Date (walk)'' \<mapsto> ''2023-12-30'', ''Comments'' \<mapsto> ''Harlem'']"

definition record2 :: row where
  "record2 = [''GPX file ID'' \<mapsto> ''2'', ''Date (walk)'' \<mapsto> ''2023-12-31'']"

definition record3 :: row where
  "record3 =
     [''GPX file ID'' \<mapsto> ''3'', ''Date (walk)'' \<mapsto> ''2024-01-01'',
      ''Comments'' \<mapsto> ''Morning walk'']"

text \<open>
  Records whose file is malformed, has an empty segment, or lies below the regular file
  \<open>route1.gpx\<close> (the cell holds \<open>1.gpx/x\<close>).
\<close>

definition record4 :: row where
  "record4 = [''GPX file ID'' \<mapsto> ''4'', ''Date (walk)'' \<mapsto> ''2024-01-02'']"

definition record5 :: row where
  "record5 = [''GPX file ID'' \<mapsto> ''5'', ''Date (walk)'' \<mapsto> ''2024-01-03'']"

definition record_below :: row where
  "record_below = [''GPX file ID'' \<mapsto> ''1.gpx/x'', ''Date (walk)'' \<mapsto> ''2024-01-04'']"

definition example_df :: "row list" where
  "example_df = [record1, record2, record3]"

definition example_map :: folium_map where
  "example_map =
     \<lparr>location = (40.7831, - 73.9712), zoom_start = 12, tiles = ''CartoDB positron'',
      children =
        [\<lparr>locations = [(0, 0), (0, 1), (1, 1)], color = ''blue'', weight = 4, opacity = 0.9,
          tooltip = ''2023-12-30: Harlem (3.00 km)''\<rparr>,
         \<lparr>locations = [(2, 2), (2, 3)], color = ''blue'', weight = 4, opacity = 0.9,
          tooltip = ''2023-12-30: Harlem (3.00 km)''\<rparr>,
         \<lparr>locations = [(4, 4)], color = ''blue'', weight = 4, opacity = 0.9,
          tooltip = ''2023-12-30: Harlem (3.00 km)''\<rparr>,
         \<lparr>locations = [(0, 0), (3.456, 0)], color = ''blue'', weight = 4, opacity = 0.9,
          tooltip = ''2024-01-01: Morning walk (3.46 km)''\<rparr>]\<rparr>"

text \<open>
  A maps folder with seven map files and one other file, and what is left of it when the
  five newest maps are kept.
\<close>

definition example_maps :: "real directory" where
  "example_maps =
     [(''gpx_map_3.html'', 30), (''gpx_map_1.html'', 10), (''notes.txt'', 1),
      (''gpx_map_7.html'', 70), (''gpx_map_5.html'', 50), (''gpx_map_2.html'', 20),
      (''gpx_map_6.html'', 60), (''gpx_map_4.html'', 40)]"

definition example_maps_kept :: "real directory" where
  "example_maps_kept =
     [(''gpx_map_3.html'', 30), (''notes.txt'', 1), (''gpx_map_7.html'', 70),
      (''gpx_map_5.html'', 50), (''gpx_map_6.html'', 60), (''gpx_map_4.html'', 40)]"

text \<open>
  A deployment in which \<open>SHEET_URL\<close> is set and \<open>GOOGLE_SHEETS_CREDENTIALS\<close> is not.
\<close>

definition example_world :: world where
  "example_world =
     \<lparr>environ = [''SHEET_URL'' \<mapsto> ''https://docs.google.com/spreadsheets/d/1''],
      base_dir = ''/srv/app'',
      keyfile_error = (\<lambda>text. None),
      spreadsheet = (\<lambda>url. Inr example_df),
      gpx_files = example_files,
      point_distance = grid_distance,
      folium_accepts = accepts_nonempty,
      save_error = None,
      maps_folder = Some example_maps,
      timestamp = ''20240101_120000'',
      today = ''2024-01-01'',
      now_ctime = 80\<rparr>"

section \<open>Properties\<close>

subsection \<open>Sums along the loops\<close>

lemma foldl_add_sum: "foldl (\<lambda>acc x. acc + f x) (a::real) xs = a + sum_list (map f xs)"
  by (induction xs arbitrary: a) simp_all

lemma sum_list_all_zero: "\<forall>x \<in> set xs. f x = (0::real) \<Longrightarrow> sum_list (map f xs) = 0"
  by (induction xs) simp_all

lemma segments_distance_sum:
  "segments_distance d a segs = a + sum_list (map (length_2d d) segs)"
  unfolding segments_distance_def by (rule foldl_add_sum)

lemma tracks_distance_sum:
  "tracks_distance d a trks =
     a + sum_list (map (\<lambda>t. sum_list (map (length_2d d) (segments t))) trks)"
  unfolding tracks_distance_def
  by (induction trks arbitrary: a) (simp_all add: segments_distance_sum)

lemma length_2d_pairs:
  "length_2d d seg =
     sum_list (map (\<lambda>(previous, loc). d loc previous) (zip (points seg) (tl (points seg))))"
  unfolding length_2d_def
  using foldl_add_sum [of "\<lambda>(previous, loc). d loc previous" 0 "zip (points seg) (tl (points seg))"]
  by (simp add: case_prod_unfold)

lemma length_2d_nonneg:
  assumes "\<And>a b. 0 \<le> d a b"
  shows "0 \<le> length_2d d seg"
  unfolding length_2d_pairs
  by (rule sum_list_nonneg) (auto simp: assms)

lemma length_2d_short:
  assumes "length (points seg) < 2"
  shows "length_2d d seg = 0"
proof (cases "points seg")
  case Nil
  then show ?thesis by (simp add: length_2d_def)
next
  case (Cons p ps)
  with assms have "ps = []" by simp
  with Cons show ?thesis by (simp add: length_2d_def)
qed

lemma tracks_distance_nonneg:
  assumes "\<And>a b. 0 \<le> d a b"
  shows "0 \<le> tracks_distance d 0 trks"
  unfolding tracks_distance_sum
  by (auto intro!: sum_list_nonneg add_nonneg_nonneg length_2d_nonneg assms)

subsection \<open>The examples, evaluated\<close>

lemma example_create_map:
  "create_map grid_distance accepts_nonempty example_files example_df ''gpx_files'' =
     Inr (example_map, 6.456)"
  by (simp add: create_map_def example_df_def process_row_def getitem_def get_default_def
      record1_def record2_def record3_def path_join_def Let_def
      compute_gpx_distance_def tracks_distance_def segments_distance_def length_2d_def
      grid_distance_def format_2f_def round_half_even_def str_nat.simps digit_char_def
      draw_file_def open_and_parse_def example_files_def route1_def
      route3_def PolyLine_def accepts_nonempty_def add_to_def example_map_def)

subsection \<open>compute_gpx_distance\<close>

text \<open>
  C10. For an existing, well-formed GPX file that has no tracks, or whose segments all
  have fewer than two points, \<open>compute_gpx_distance\<close> returns exactly 0.
\<close>

theorem compute_gpx_distance_short_segments:
  assumes "fs p = Some (Document g)"
    and "tracks g = [] \<or>
         (\<forall>t \<in> set (tracks g). \<forall>s \<in> set (segments t). length (points s) < 2)"
  shows "compute_gpx_distance d fs p = Inr 0"
proof -
  have "\<forall>t \<in> set (tracks g). \<forall>s \<in> set (segments t). length_2d d s = 0"
    using assms(2) by (auto simp: length_2d_short)
  then have "\<forall>t \<in> set (tracks g). sum_list (map (length_2d d) (segments t)) = 0"
    by (simp add: sum_list_all_zero)
  then have "tracks_distance d 0 (tracks g) = 0"
    by (simp add: tracks_distance_sum sum_list_all_zero)
  with assms(1) show ?thesis by (simp add: compute_gpx_distance_def open_and_parse_def)
qed

theorem compute_gpx_distance_short_segments_witness:
  "example_files ''gpx_files/route5.gpx'' = Some (Document route5) \<and>
   compute_gpx_distance grid_distance example_files ''gpx_files/route5.gpx'' = Inr 0"
proof -
  have here: "example_files ''gpx_files/route5.gpx'' = Some (Document route5)"
    by (simp add: example_files_def)
  have short: "tracks route5 = [] \<or>
      (\<forall>t \<in> set (tracks route5). \<forall>s \<in> set (segments t). length (points s) < 2)"
    by (simp add: route5_def)
  show ?thesis
    by (rule conjI [OF here compute_gpx_distance_short_segments
            [where fs = example_files and p = "''gpx_files/route5.gpx''", OF here short]])
qed

text \<open>
  C3. On a path where \<open>open\<close> finds no file and raises \<open>FileNotFoundError\<close>,
  \<open>compute_gpx_distance\<close> returns exactly 0 and does not raise; on an existing
  well-formed GPX file it returns a non-negative value (the distance between two points,
  which the library computes, being non-negative). This does not extend to every path that
  does not exist: below a regular file \<open>open\<close> raises \<open>NotADirectoryError\<close>, which
  the \<open>except\<close> clause does not catch, as the counterexample shows.
\<close>

theorem compute_gpx_distance_absent_or_nonneg:
  "(fs p = None \<longrightarrow> compute_gpx_distance d fs p = Inr 0) \<and>
   (fs p = Some (Document g) \<and> (\<forall>a b. 0 \<le> d a b) \<longrightarrow>
      (\<exists>x. compute_gpx_distance d fs p = Inr x \<and> 0 \<le> x))"
proof (intro conjI impI)
  assume "fs p = None"
  then show "compute_gpx_distance d fs p = Inr 0"
    by (simp add: compute_gpx_distance_def open_and_parse_def)
next
  assume h: "fs p = Some (Document g) \<and> (\<forall>a b. 0 \<le> d a b)"
  then have "0 \<le> tracks_distance d 0 (tracks g) / 1000"
    by (simp add: tracks_distance_nonneg)
  moreover have "compute_gpx_distance d fs p = Inr (tracks_distance d 0 (tracks g) / 1000)"
    using h by (simp add: compute_gpx_distance_def open_and_parse_def)
  ultimately show "\<exists>x. compute_gpx_distance d fs p = Inr x \<and> 0 \<le> x"
    by blast
qed

theorem compute_gpx_distance_absent_or_nonneg_witness:
  "compute_gpx_distance grid_distance example_files ''gpx_files/route2.gpx'' = Inr 0 \<and>
   (\<exists>x. compute_gpx_distance grid_distance example_files ''gpx_files/route1.gpx'' = Inr x \<and>
        0 \<le> x)"
proof -
  have absent: "example_files ''gpx_files/route2.gpx'' = None"
    by (simp add: example_files_def)
  have present: "example_files ''gpx_files/route1.gpx'' = Some (Document route1) \<and>
      (\<forall>a b. 0 \<le> grid_distance a b)"
    by (simp add: example_files_def grid_distance_def)
  have 1: "compute_gpx_distance grid_distance example_files ''gpx_files/route2.gpx'' = Inr 0"
    by (rule mp [OF conjunct1 [OF compute_gpx_distance_absent_or_nonneg
            [where fs = example_files and p = "''gpx_files/route2.gpx''"]] absent])
  have 2: "\<exists>x. compute_gpx_distance grid_distance example_files ''gpx_files/route1.gpx'' =
      Inr x \<and> 0 \<le> x"
    by (rule mp [OF conjunct2 [OF compute_gpx_distance_absent_or_nonneg
            [where fs = example_files and p = "''gpx_files/route1.gpx''"]] present])
  show ?thesis by (rule conjI [OF 1 2])
qed

theorem compute_gpx_distance_absent_counterexample:
  "\<not> path_exists example_files ''gpx_files/route1.gpx/x.gpx'' \<and>
   compute_gpx_distance grid_distance example_files ''gpx_files/route1.gpx/x.gpx'' =
     Inl (Raised OSError ''Not a directory'')"
  by (simp add: path_exists_def compute_gpx_distance_def open_and_parse_def example_files_def)

text \<open>
  C4. Only the missing file is caught: on an existing file whose text is malformed, the
  parse error leaves \<open>compute_gpx_distance\<close> and reaches the caller.
\<close>

theorem compute_gpx_distance_parse_error:
  assumes "fs p = Some Malformed"
  shows "\<exists>e. compute_gpx_distance d fs p = Inl e \<and> exc_class_of e = GPXException"
  using assms by (simp add: compute_gpx_distance_def open_and_parse_def)

theorem compute_gpx_distance_parse_error_witness:
  "example_files ''gpx_files/route4.gpx'' = Some Malformed \<and>
   (\<exists>e. compute_gpx_distance grid_distance example_files ''gpx_files/route4.gpx'' = Inl e \<and>
        exc_class_of e = GPXException)"
proof -
  have here: "example_files ''gpx_files/route4.gpx'' = Some Malformed"
    by (simp add: example_files_def)
  show ?thesis
    by (rule conjI [OF here compute_gpx_distance_parse_error
            [where fs = example_files and p = "''gpx_files/route4.gpx''", OF here]])
qed

subsection \<open>The loops of create_map\<close>

lemma add_segments_result:
  "add_segments v tip m segs =
     (if \<forall>s \<in> set segs. v (segment_locations s)
      then Inr (m\<lparr>children := children m @ map (segment_line tip) segs\<rparr>)
      else Inl (Raised ValueError ''Locations is empty.''))"
  by (induction segs arbitrary: m)
    (auto simp: PolyLine_def add_to_def segment_line_def segment_locations_def)

lemma add_tracks_result:
  "add_tracks v tip m trks =
     (if \<forall>s \<in> set (concat (map segments trks)). v (segment_locations s)
      then Inr (m\<lparr>children := children m @
                   map (segment_line tip) (concat (map segments trks))\<rparr>)
      else Inl (Raised ValueError ''Locations is empty.''))"
  by (induction trks arbitrary: m) (auto simp: add_segments_result)

lemma draw_file_Inr:
  assumes "draw_file v fs p tip m = Inr m'"
  shows "m' = m\<lparr>children := children m @ map (segment_line tip) (file_segments fs p)\<rparr>"
  using assms
  by (auto simp: draw_file_def open_and_parse_def file_segments_def add_tracks_result
      split: option.splits path_entry.splits if_splits)

lemma process_row_Inr:
  assumes "process_row d v fs folder st r = Inr st'"
  shows "\<exists>ident date x.
           r ''GPX file ID'' = Some ident \<and> r ''Date (walk)'' = Some date \<and>
           compute_gpx_distance d fs (gpx_path folder ident) = Inr x \<and>
           snd st' = snd st + x \<and>
           children (fst st') = children (fst st) @
             map (segment_line (tooltip_text date (get_default r ''Comments'' []) x))
               (file_segments fs (gpx_path folder ident))"
  using assms
  by (auto simp: process_row_def getitem_def gpx_path_def tooltip_text_def Let_def
      dest!: draw_file_Inr split: option.splits sum.splits)

lemma process_rows_Inr:
  assumes "process_rows d v fs folder st rs = Inr st'"
  shows "\<exists>dates ds.
           map (\<lambda>r. r ''Date (walk)'') rs = map Some dates \<and>
           map (record_distance d fs folder) rs = map Some ds \<and>
           snd st' = foldl (+) (snd st) ds \<and>
           children (fst st') = children (fst st) @
             concat (map (\<lambda>(r, date, x).
                 map (segment_line (tooltip_text date (get_default r ''Comments'' []) x))
                   (record_segments fs folder r))
               (zip rs (zip dates ds)))"
  using assms
proof (induction rs arbitrary: st)
  case Nil
  then show ?case by simp
next
  case (Cons r rs)
  from Cons.prems obtain st1 where
    row: "process_row d v fs folder st r = Inr st1" and
    rest: "process_rows d v fs folder st1 rs = Inr st'"
    by (auto split: sum.splits)
  from process_row_Inr [OF row] obtain ident date x where
    r: "r ''GPX file ID'' = Some ident" "r ''Date (walk)'' = Some date"
      "compute_gpx_distance d fs (gpx_path folder ident) = Inr x"
      "snd st1 = snd st + x"
      "children (fst st1) = children (fst st) @
         map (segment_line (tooltip_text date (get_default r ''Comments'' []) x))
           (file_segments fs (gpx_path folder ident))"
    by blast
  from Cons.IH [OF rest] obtain dates ds where
    ih: "map (\<lambda>r. r ''Date (walk)'') rs = map Some dates"
      "map (record_distance d fs folder) rs = map Some ds"
      "snd st' = foldl (+) (snd st1) ds"
      "children (fst st') = children (fst st1) @
         concat (map (\<lambda>(r, date, x).
             map (segment_line (tooltip_text date (get_default r ''Comments'' []) x))
               (record_segments fs folder r))
           (zip rs (zip dates ds)))"
    by blast
  have "map (\<lambda>r. r ''Date (walk)'') (r # rs) = map Some (date # dates)"
    using r ih by simp
  moreover have "map (record_distance d fs folder) (r # rs) = map Some (x # ds)"
    using r ih by (simp add: record_distance_def)
  moreover have "snd st' = foldl (+) (snd st) (x # ds)"
    using r ih by simp
  moreover have "children (fst st') = children (fst st) @
         concat (map (\<lambda>(r, date, x).
             map (segment_line (tooltip_text date (get_default r ''Comments'' []) x))
               (record_segments fs folder r))
           (zip (r # rs) (zip (date # dates) (x # ds))))"
    using r ih by (simp add: record_segments_def)
  ultimately show ?case by blast
qed

lemma create_map_Inr:
  assumes "create_map d v fs df folder = Inr (m, walked)"
  shows "\<exists>dates ds.
           map (\<lambda>r. r ''Date (walk)'') df = map Some dates \<and>
           map (record_distance d fs folder) df = map Some ds \<and>
           walked = foldl (+) 0 ds \<and>
           children m =
             concat (map (\<lambda>(r, date, x).
                 map (segment_line (tooltip_text date (get_default r ''Comments'' []) x))
                   (record_segments fs folder r))
               (zip df (zip dates ds)))"
  using process_rows_Inr [OF assms [unfolded create_map_def]] by auto

lemma lines_locations:
  assumes "map (\<lambda>r. r ''Date (walk)'') df = map Some dates"
    and "map (record_distance d fs folder) df = map Some ds"
  shows "map locations
           (concat (map (\<lambda>(r, date, x).
               map (segment_line (tooltip_text date (get_default r ''Comments'' []) x))
                 (record_segments fs folder r))
             (zip df (zip dates ds)))) =
         concat (map (\<lambda>r. map segment_locations (record_segments fs folder r)) df)"
proof -
  have l1: "length dates = length df" using assms(1) by (metis length_map)
  have l2: "length ds = length df" using assms(2) by (metis length_map)
  have "map locations
           (concat (map (\<lambda>(r, date, x).
               map (segment_line (tooltip_text date (get_default r ''Comments'' []) x))
                 (record_segments fs folder r))
             (zip df (zip dates ds)))) =
        concat (map (\<lambda>r. map segment_locations (record_segments fs folder r))
          (map fst (zip df (zip dates ds))))"
    by (simp add: map_concat comp_def case_prod_unfold segment_line_def)
  also have "map fst (zip df (zip dates ds)) = df"
    using l1 l2 by simp
  finally show ?thesis .
qed

lemma process_row_returns:
  assumes "r ''GPX file ID'' = Some ident" and "r ''Date (walk)'' = Some date"
    and "fs (gpx_path folder ident) = None \<or>
         (\<exists>g. fs (gpx_path folder ident) = Some (Document g))"
    and "\<forall>s \<in> set (record_segments fs folder r). v (segment_locations s)"
  shows "\<exists>st'. process_row d v fs folder st r = Inr st'"
proof (cases "fs (gpx_path folder ident)")
  case None
  with assms(1,2) show ?thesis
    by (simp add: process_row_def getitem_def gpx_path_def compute_gpx_distance_def
        draw_file_def open_and_parse_def Let_def)
next
  case (Some f)
  with assms(3) obtain g where g: "fs (gpx_path folder ident) = Some (Document g)"
    by auto
  with assms(1,4) have "\<forall>s \<in> set (concat (map segments (tracks g))). v (segment_locations s)"
    by (simp add: record_segments_def file_segments_def)
  with assms(1,2) g show ?thesis
    by (simp add: process_row_def getitem_def gpx_path_def
        compute_gpx_distance_def draw_file_def open_and_parse_def Let_def add_tracks_result)
qed

lemma process_rows_returns:
  assumes "\<forall>r \<in> set rs. r ''GPX file ID'' \<noteq> None \<and> r ''Date (walk)'' \<noteq> None"
    and "\<forall>r \<in> set rs. \<forall>ident. r ''GPX file ID'' = Some ident \<longrightarrow>
           fs (gpx_path folder ident) = None \<or>
           (\<exists>g. fs (gpx_path folder ident) = Some (Document g))"
    and "\<forall>r \<in> set rs. \<forall>s \<in> set (record_segments fs folder r). v (segment_locations s)"
  shows "\<exists>st'. process_rows d v fs folder st rs = Inr st'"
  using assms
proof (induction rs arbitrary: st)
  case Nil
  then show ?case by simp
next
  case (Cons r rs)
  from Cons.prems(1) obtain ident date where
    "r ''GPX file ID'' = Some ident" "r ''Date (walk)'' = Some date"
    by auto
  with Cons.prems obtain st1 where "process_row d v fs folder st r = Inr st1"
    using process_row_returns [of r ident date fs folder v d st] by auto
  moreover from Cons.IH [of st1] Cons.prems
  obtain st' where "process_rows d v fs folder st1 rs = Inr st'" by auto
  ultimately show ?case by simp
qed

lemma record_distance_absent:
  assumes "file_absent fs folder r"
  shows "record_distance d fs folder r = Some 0"
  using assms
  by (auto simp: file_absent_def record_distance_def compute_gpx_distance_def open_and_parse_def
      split: option.splits)

lemma record_segments_absent:
  assumes "file_absent fs folder r"
  shows "record_segments fs folder r = []"
  using assms
  by (auto simp: file_absent_def record_segments_def file_segments_def split: option.splits)

lemma concat_map_filter_nonempty:
  assumes "\<And>x. x \<in> set xs \<Longrightarrow> \<not> P x \<Longrightarrow> f x = []"
  shows "concat (map f (filter P xs)) = concat (map f xs)"
  using assms by (induction xs) auto

subsection \<open>create_map\<close>

text \<open>
  C1. The total distance that \<open>create_map\<close> returns is the sum, taken in the order of
  the records and starting from 0, of \<open>compute_gpx_distance\<close> on each record's file path
  \<open>route<id>.gpx\<close> in the folder; the polylines play no part in it.
\<close>

theorem create_map_total_is_sum:
  assumes "create_map d v fs df folder = Inr (m, walked)"
  shows "\<exists>ds. map (record_distance d fs folder) df = map Some ds \<and> walked = foldl (+) 0 ds"
  using create_map_Inr [OF assms] by blast

theorem create_map_total_is_sum_witness:
  "create_map grid_distance accepts_nonempty example_files example_df ''gpx_files'' =
     Inr (example_map, 6.456) \<and>
   (\<exists>ds. map (record_distance grid_distance example_files ''gpx_files'') example_df =
            map Some ds \<and>
         6.456 = foldl (+) 0 ds)"
  by (rule conjI [OF example_create_map create_map_total_is_sum [OF example_create_map]])

text \<open>
  C7. The polylines of the map that \<open>create_map\<close> returns come in the order of the
  records; within a record, track by track and segment by segment; and the locations of a
  polyline are the points of its segment in their order.
\<close>

theorem create_map_polyline_order:
  assumes "create_map d v fs df folder = Inr (m, walked)"
  shows "map locations (children m) =
           concat (map (\<lambda>r. map segment_locations (record_segments fs folder r)) df)"
proof -
  from create_map_Inr [OF assms] obtain dates ds where
    cols: "map (\<lambda>r. r ''Date (walk)'') df = map Some dates"
      "map (record_distance d fs folder) df = map Some ds" and
    ch: "children m = concat (map (\<lambda>(r, date, x).
             map (segment_line (tooltip_text date (get_default r ''Comments'' []) x))
               (record_segments fs folder r))
           (zip df (zip dates ds)))"
    by blast
  show ?thesis unfolding ch by (rule lines_locations [OF cols])
qed

theorem create_map_polyline_order_witness:
  "create_map grid_distance accepts_nonempty example_files example_df ''gpx_files'' =
     Inr (example_map, 6.456) \<and>
   map locations (children example_map) =
     concat (map (\<lambda>r. map segment_locations (record_segments example_files ''gpx_files'' r))
       example_df)"
  by (rule conjI [OF example_create_map create_map_polyline_order [OF example_create_map]])

text \<open>
  C5. Every polyline drawn for a record carries the tooltip
  \<open><date>: <comment> (<d> km)\<close>, where \<open>d\<close> is the distance of the record's whole file
  written with two decimals: the same text on each polyline of the record. For the date
  2024-01-01, the comment Morning walk and the distance 3.456 the text is
  \<open>2024-01-01: Morning walk (3.46 km)\<close>.
\<close>

theorem create_map_tooltips:
  assumes "create_map d v fs df folder = Inr (m, walked)"
  shows "(\<exists>dates ds.
            map (\<lambda>r. r ''Date (walk)'') df = map Some dates \<and>
            map (record_distance d fs folder) df = map Some ds \<and>
            map tooltip (children m) =
              concat (map (\<lambda>(r, date, x).
                  replicate (length (record_segments fs folder r))
                    (tooltip_text date (get_default r ''Comments'' []) x))
                (zip df (zip dates ds)))) \<and>
         tooltip_text ''2024-01-01'' ''Morning walk'' 3.456 =
           ''2024-01-01: Morning walk (3.46 km)''"
proof
  from create_map_Inr [OF assms] obtain dates ds where
    cols: "map (\<lambda>r. r ''Date (walk)'') df = map Some dates"
      "map (record_distance d fs folder) df = map Some ds" and
    ch: "children m = concat (map (\<lambda>(r, date, x).
             map (segment_line (tooltip_text date (get_default r ''Comments'' []) x))
               (record_segments fs folder r))
           (zip df (zip dates ds)))"
    by blast
  have "map tooltip (children m) =
          concat (map (\<lambda>(r, date, x).
              replicate (length (record_segments fs folder r))
                (tooltip_text date (get_default r ''Comments'' []) x))
            (zip df (zip dates ds)))"
    unfolding ch
    by (simp add: map_concat comp_def case_prod_unfold segment_line_def map_replicate_const)
  with cols show "\<exists>dates ds.
            map (\<lambda>r. r ''Date (walk)'') df = map Some dates \<and>
            map (record_distance d fs folder) df = map Some ds \<and>
            map tooltip (children m) =
              concat (map (\<lambda>(r, date, x).
                  replicate (length (record_segments fs folder r))
                    (tooltip_text date (get_default r ''Comments'' []) x))
                (zip df (zip dates ds)))"
    by blast
next
  show "tooltip_text ''2024-01-01'' ''Morning walk'' 3.456 =
           ''2024-01-01: Morning walk (3.46 km)''"
    by (simp add: tooltip_text_def format_2f_def round_half_even_def str_nat.simps
        digit_char_def)
qed

theorem create_map_tooltips_witness:
  "create_map grid_distance accepts_nonempty example_files example_df ''gpx_files'' =
     Inr (example_map, 6.456) \<and>
   (\<exists>dates ds.
      map (\<lambda>r. r ''Date (walk)'') example_df = map Some dates \<and>
      map (record_distance grid_distance example_files ''gpx_files'') example_df =
        map Some ds \<and>
      map tooltip (children example_map) =
        concat (map (\<lambda>(r, date, x).
            replicate (length (record_segments example_files ''gpx_files'' r))
              (tooltip_text date (get_default r ''Comments'' []) x))
          (zip example_df (zip dates ds)))) \<and>
   tooltip_text ''2024-01-01'' ''Morning walk'' 3.456 = ''2024-01-01: Morning walk (3.46 km)''"
  by (rule conjI [OF example_create_map create_map_tooltips [OF example_create_map]])

text \<open>
  C2. Take records (rows with the two columns the loop reads) such that the file of each
  one is either not found (\<open>open\<close> raises \<open>FileNotFoundError\<close>) or a well-formed
  GPX file whose segments folium accepts. Then \<open>create_map\<close> does not raise: it returns
  a map whose polylines are those of the records with a file, in the order of the records,
  and a total to which each record whose file is not found contributes 0. With three
  records of which only the second has no file, the polylines are those of the first and
  the third record, in that order, and the total is their two distances.

  Without these conditions \<open>create_map\<close> can raise although files are absent, as the
  counterexample shows on three inputs: a record whose path lies below a regular file
  (the path does not exist, \<open>open\<close> raises \<open>NotADirectoryError\<close>); a record without a
  file next to one whose file is malformed; a record without a file next to one whose file
  has an empty segment, which the folium of the examples rejects.
\<close>

theorem create_map_skips_absent_files:
  assumes "\<forall>r \<in> set df. r ''GPX file ID'' \<noteq> None \<and> r ''Date (walk)'' \<noteq> None"
    and "\<forall>r \<in> set df. \<forall>ident. r ''GPX file ID'' = Some ident \<longrightarrow>
           fs (gpx_path folder ident) = None \<or>
           (\<exists>g. fs (gpx_path folder ident) = Some (Document g))"
    and "\<forall>r \<in> set df. \<forall>s \<in> set (record_segments fs folder r). v (segment_locations s)"
  shows "\<exists>m walked ds.
           create_map d v fs df folder = Inr (m, walked) \<and>
           map locations (children m) =
             concat (map (\<lambda>r. map segment_locations (record_segments fs folder r))
               (filter (\<lambda>r. \<not> file_absent fs folder r) df)) \<and>
           map (record_distance d fs folder) df = map Some ds \<and>
           walked = foldl (+) 0 ds \<and>
           (\<forall>k < length df. file_absent fs folder (df ! k) \<longrightarrow> ds ! k = 0)"
proof -
  from process_rows_returns [OF assms] obtain m walked where
    ret: "create_map d v fs df folder = Inr (m, walked)"
    unfolding create_map_def by (metis surj_pair)
  from create_map_Inr [OF ret] obtain dates ds where
    cols: "map (\<lambda>r. r ''Date (walk)'') df = map Some dates"
      "map (record_distance d fs folder) df = map Some ds" and
    sum: "walked = foldl (+) 0 ds" and
    ch: "children m = concat (map (\<lambda>(r, date, x).
             map (segment_line (tooltip_text date (get_default r ''Comments'' []) x))
               (record_segments fs folder r))
           (zip df (zip dates ds)))"
    by blast
  have "map locations (children m) =
          concat (map (\<lambda>r. map segment_locations (record_segments fs folder r)) df)"
    unfolding ch by (rule lines_locations [OF cols])
  also have "\<dots> = concat (map (\<lambda>r. map segment_locations (record_segments fs folder r))
                      (filter (\<lambda>r. \<not> file_absent fs folder r) df))"
    by (rule concat_map_filter_nonempty [symmetric]) (simp add: record_segments_absent)
  finally have loc: "map locations (children m) =
          concat (map (\<lambda>r. map segment_locations (record_segments fs folder r))
            (filter (\<lambda>r. \<not> file_absent fs folder r) df))" .
  have "\<forall>k < length df. file_absent fs folder (df ! k) \<longrightarrow> ds ! k = 0"
  proof (intro allI impI)
    fix k assume k: "k < length df" and ab: "file_absent fs folder (df ! k)"
    have "length ds = length df" using cols(2) by (metis length_map)
    with k have "map (record_distance d fs folder) df ! k = Some (ds ! k)"
      using cols(2) by simp
    with k record_distance_absent [OF ab, of d] show "ds ! k = 0" by simp
  qed
  with ret loc cols(2) sum show ?thesis by blast
qed

lemma example_paths:
  "gpx_path ''gpx_files'' ''1'' = ''gpx_files/route1.gpx''"
  "gpx_path ''gpx_files'' ''2'' = ''gpx_files/route2.gpx''"
  "gpx_path ''gpx_files'' ''3'' = ''gpx_files/route3.gpx''"
  by (simp_all add: gpx_path_def path_join_def)

lemma example_absent:
  "\<not> file_absent example_files ''gpx_files'' record1"
  "file_absent example_files ''gpx_files'' record2"
  "\<not> file_absent example_files ''gpx_files'' record3"
  by (simp_all add: file_absent_def record1_def record2_def record3_def example_paths
      example_files_def)

theorem create_map_skips_absent_files_witness:
  "file_absent example_files ''gpx_files'' record2 \<and>
   create_map grid_distance accepts_nonempty example_files [record1, record2, record3]
     ''gpx_files'' = Inr (example_map, 3 + 0 + 3.456) \<and>
   (\<exists>m walked ds.
      create_map grid_distance accepts_nonempty example_files example_df ''gpx_files'' =
        Inr (m, walked) \<and>
      map locations (children m) =
        concat (map (\<lambda>r. map segment_locations (record_segments example_files ''gpx_files'' r))
          (filter (\<lambda>r. \<not> file_absent example_files ''gpx_files'' r) example_df)) \<and>
      map (record_distance grid_distance example_files ''gpx_files'') example_df =
        map Some ds \<and>
      walked = foldl (+) 0 ds \<and>
      (\<forall>k < length example_df.
         file_absent example_files ''gpx_files'' (example_df ! k) \<longrightarrow> ds ! k = 0))"
proof -
  have cols: "\<forall>r \<in> set example_df. r ''GPX file ID'' \<noteq> None \<and> r ''Date (walk)'' \<noteq> None"
    by (simp add: example_df_def record1_def record2_def record3_def)
  have parse: "\<forall>r \<in> set example_df. \<forall>ident. r ''GPX file ID'' = Some ident \<longrightarrow>
      example_files (gpx_path ''gpx_files'' ident) = None \<or>
      (\<exists>g. example_files (gpx_path ''gpx_files'' ident) = Some (Document g))"
    by (simp add: example_df_def record1_def record2_def record3_def example_paths
        example_files_def)
  have accepted: "\<forall>r \<in> set example_df.
      \<forall>s \<in> set (record_segments example_files ''gpx_files'' r).
        accepts_nonempty (segment_locations s)"
    by (simp add: example_df_def record1_def record2_def record3_def record_segments_def
        example_paths file_segments_def example_files_def route1_def route3_def
        accepts_nonempty_def segment_locations_def)
  have run: "create_map grid_distance accepts_nonempty example_files
      [record1, record2, record3] ''gpx_files'' = Inr (example_map, 3 + 0 + 3.456)"
    using example_create_map by (simp add: example_df_def)
  show ?thesis
    by (intro conjI example_absent(2) run
        create_map_skips_absent_files [OF cols parse accepted])
qed

theorem create_map_absent_files_counterexample:
  "\<not> path_exists example_files (gpx_path ''gpx_files'' ''1.gpx/x'') \<and>
   create_map grid_distance accepts_nonempty example_files [record_below] ''gpx_files'' =
     Inl (Raised OSError ''Not a directory'') \<and>
   file_absent example_files ''gpx_files'' record2 \<and>
   create_map grid_distance accepts_nonempty example_files [record2, record4] ''gpx_files'' =
     Inl (Raised GPXException ''Error parsing XML'') \<and>
   create_map grid_distance accepts_nonempty example_files [record2, record5] ''gpx_files'' =
     Inl (Raised ValueError ''Locations is empty.'')"
  by (simp add: path_exists_def create_map_def process_row_def getitem_def get_default_def
      record2_def record4_def record5_def record_below_def gpx_path_def path_join_def Let_def
      file_absent_def compute_gpx_distance_def draw_file_def open_and_parse_def
      tracks_distance_def segments_distance_def length_2d_def grid_distance_def
      format_2f_def round_half_even_def str_nat.simps digit_char_def
      example_files_def route5_def PolyLine_def accepts_nonempty_def add_to_def)

subsection \<open>cleanup_old_maps\<close>

lemma foldl_os_remove:
  "foldl (\<lambda>folder old_file. os_remove old_file folder) entries names =
     filter (\<lambda>e. fst e \<notin> set names) entries"
  by (induction names arbitrary: entries) (auto simp: os_remove_def intro: filter_cong)

lemma set_sorted_reverse: "set (sorted_reverse key xs) = set xs"
  by (simp add: sorted_reverse_def)

lemma length_sorted_reverse: "length (sorted_reverse key xs) = length xs"
  by (simp add: sorted_reverse_def)

lemma distinct_sorted_reverse: "distinct (sorted_reverse key xs) = distinct xs"
  by (simp add: sorted_reverse_def distinct_sort)

lemma sorted_reverse_descending:
  "sorted (rev (map key (sorted_reverse key xs)))"
  by (simp add: sorted_reverse_def rev_map)

lemma descending_take_drop:
  assumes "sorted (rev (map key ys))" and "a \<in> set (take n ys)" and "b \<in> set (drop n ys)"
  shows "key b \<le> key a"
proof -
  have "rev (map key ys) = rev (map key (drop n ys)) @ rev (map key (take n ys))"
    by (metis append_take_drop_id map_append rev_append)
  with assms(1) have "\<forall>x \<in> set (rev (map key (drop n ys))).
      \<forall>y \<in> set (rev (map key (take n ys))). x \<le> y"
    by (simp add: sorted_append)
  with assms(2,3) show ?thesis by auto
qed

lemma cleanup_old_maps_Some:
  "cleanup_old_maps k (Some entries) =
     Some (filter (\<lambda>e. fst e \<notin> set (slice_from k (map fst (sorted_reverse snd
        (filter (\<lambda>e. endswith (fst e) ''.html'') entries))))) entries)"
  by (simp add: cleanup_old_maps_def foldl_os_remove)

lemma slice_from_subset: "set (slice_from k xs) \<subseteq> set xs"
  by (auto simp: slice_from_def dest: in_set_dropD)

lemma example_cleanup:
  "cleanup_old_maps 5 (Some example_maps) = Some example_maps_kept"
  by (simp add: cleanup_old_maps_def example_maps_def example_maps_kept_def endswith_def
      sorted_reverse_def slice_from_def os_remove_def)

lemma example_names: "distinct (map fst example_maps)"
  by (simp add: example_maps_def)

text \<open>
  C9. \<open>cleanup_old_maps\<close> removes only files whose name ends in \<open>.html\<close>: whatever
  the folder holds and whatever the count to keep, the other files are all still there
  afterwards, with their creation times and in their order. A folder that does not exist
  stays so: nothing is removed and nothing is raised.
\<close>

theorem cleanup_keeps_other_files:
  fixes entries :: "(string \<times> 't::linorder) list"
  shows "cleanup_old_maps k None = None \<and>
   (\<exists>kept. cleanup_old_maps k (Some entries) = Some kept \<and>
      filter (\<lambda>e. \<not> endswith (fst e) ''.html'') kept =
      filter (\<lambda>e. \<not> endswith (fst e) ''.html'') entries)"
proof -
  let ?html = "\<lambda>e::string \<times> 't. endswith (fst e) ''.html''"
  let ?old = "slice_from k (map fst (sorted_reverse snd (filter ?html entries)))"
  have "set ?old \<subseteq> fst ` set (filter ?html entries)"
    using slice_from_subset [of k "map fst (sorted_reverse snd (filter ?html entries))"]
    by (simp add: set_sorted_reverse)
  then have "\<And>e. \<not> ?html e \<Longrightarrow> fst e \<notin> set ?old"
    by auto
  then have "filter (\<lambda>e. \<not> ?html e) (filter (\<lambda>e. fst e \<notin> set ?old) entries) =
      filter (\<lambda>e. \<not> ?html e) entries"
    by (auto simp: filter_filter intro: filter_cong)
  moreover have "cleanup_old_maps k None = None"
    by (simp add: cleanup_old_maps_def)
  ultimately show ?thesis
    unfolding cleanup_old_maps_Some by blast
qed

text \<open>
  C6. With a count \<open>N\<close> to keep, \<open>cleanup_old_maps\<close> keeps the \<open>N\<close> map files
  created last (all of them when there are fewer than \<open>N\<close>) and removes the others:
  every file it removes is a map file created no later than each map file it keeps. Of
  seven maps and \<open>N = 5\<close> it removes the two oldest and leaves the five newest.
\<close>

theorem cleanup_keeps_latest:
  fixes entries :: "(string \<times> 't::linorder) list"
  assumes "0 \<le> k" and "distinct (map fst entries)"
  shows "\<exists>kept. cleanup_old_maps k (Some entries) = Some kept \<and>
      set (filter (\<lambda>e. endswith (fst e) ''.html'') kept) =
        set (take (nat k) (sorted_reverse snd
          (filter (\<lambda>e. endswith (fst e) ''.html'') entries))) \<and>
      length (filter (\<lambda>e. endswith (fst e) ''.html'') kept) =
        min (nat k) (length (filter (\<lambda>e. endswith (fst e) ''.html'') entries)) \<and>
      (\<forall>old \<in> set entries - set kept.
         endswith (fst old) ''.html'' \<and>
         (\<forall>new \<in> set (filter (\<lambda>e. endswith (fst e) ''.html'') kept). snd old \<le> snd new))"
proof -
  let ?html = "\<lambda>e::string \<times> 't. endswith (fst e) ''.html''"
  let ?S = "sorted_reverse snd (filter ?html entries)"
  let ?n = "nat k"
  let ?kept = "filter (\<lambda>e. fst e \<notin> set (map fst (drop ?n ?S))) entries"
  have res: "cleanup_old_maps k (Some entries) = Some ?kept"
    using assms(1) by (simp add: cleanup_old_maps_Some slice_from_def drop_map)
  have dist: "distinct entries" using assms(2) by (rule distinct_map [THEN iffD1, THEN conjunct1])
  have inj: "inj_on fst (set entries)" using assms(2) by (simp add: distinct_map)
  have setS: "set ?S = set (filter ?html entries)" by (rule set_sorted_reverse)
  have distS: "distinct ?S" using dist by (simp add: distinct_sorted_reverse)
  have sub: "set (drop ?n ?S) \<subseteq> set entries" "set (take ?n ?S) \<subseteq> set entries"
    using setS by (auto dest: in_set_dropD in_set_takeD)
  have name_iff: "fst e \<in> fst ` set (drop ?n ?S) \<longleftrightarrow> e \<in> set (drop ?n ?S)"
    if "e \<in> set entries" for e
    using that sub(1) inj by (auto simp: inj_on_def)
  have split: "set ?S = set (take ?n ?S) \<union> set (drop ?n ?S)"
    by (metis append_take_drop_id set_append)
  have disj: "set (take ?n ?S) \<inter> set (drop ?n ?S) = {}"
    using distS by (metis append_take_drop_id distinct_append)
  have kept_html: "set (filter ?html ?kept) = set (take ?n ?S)"
  proof (intro set_eqI iffI)
    fix e assume "e \<in> set (filter ?html ?kept)"
    then have e: "e \<in> set entries" "?html e" "e \<notin> set (drop ?n ?S)"
      using name_iff by auto
    then have "e \<in> set ?S" using setS by simp
    with e(3) split show "e \<in> set (take ?n ?S)" by auto
  next
    fix e assume t: "e \<in> set (take ?n ?S)"
    then have "e \<in> set ?S" by (rule in_set_takeD)
    then have e: "e \<in> set entries" "?html e" using setS by auto
    from t disj have "e \<notin> set (drop ?n ?S)" by auto
    with e name_iff show "e \<in> set (filter ?html ?kept)" by auto
  qed
  have "distinct (filter ?html ?kept)" using dist by simp
  then have "length (filter ?html ?kept) = card (set (take ?n ?S))"
    using kept_html by (metis distinct_card)
  also have "\<dots> = length (take ?n ?S)"
    using distS by (simp add: distinct_card)
  also have "\<dots> = min ?n (length (filter ?html entries))"
    by (simp add: length_sorted_reverse min.commute)
  finally have len: "length (filter ?html ?kept) = min ?n (length (filter ?html entries))" .
  have older: "\<forall>old \<in> set entries - set ?kept.
      ?html old \<and> (\<forall>new \<in> set (filter ?html ?kept). snd old \<le> snd new)"
  proof (intro ballI conjI)
    fix old assume "old \<in> set entries - set ?kept"
    then have o: "old \<in> set entries" "old \<in> set (drop ?n ?S)"
      using name_iff by auto
    then have "old \<in> set ?S" by (auto dest: in_set_dropD)
    then show "?html old" using setS by simp
    fix new assume n: "new \<in> set (filter ?html ?kept)"
    have nw: "new \<in> set (take ?n ?S)" using n unfolding kept_html .
    show "snd old \<le> snd new"
      by (rule descending_take_drop [OF sorted_reverse_descending nw o(2)])
  qed
  from res kept_html len older show ?thesis by blast
qed

theorem cleanup_keeps_latest_witness:
  "(0::int) \<le> 5 \<and> distinct (map fst example_maps) \<and>
   cleanup_old_maps 5 (Some example_maps) = Some example_maps_kept \<and>
   (\<exists>kept. cleanup_old_maps 5 (Some example_maps) = Some kept \<and>
      set (filter (\<lambda>e. endswith (fst e) ''.html'') kept) =
        set (take (nat 5) (sorted_reverse snd
          (filter (\<lambda>e. endswith (fst e) ''.html'') example_maps))) \<and>
      length (filter (\<lambda>e. endswith (fst e) ''.html'') kept) =
        min (nat 5) (length (filter (\<lambda>e. endswith (fst e) ''.html'') example_maps)) \<and>
      (\<forall>old \<in> set example_maps - set kept.
         endswith (fst old) ''.html'' \<and>
         (\<forall>new \<in> set (filter (\<lambda>e. endswith (fst e) ''.html'') kept).
            snd old \<le> snd new)))"
proof -
  have k: "(0::int) \<le> 5" by simp
  show ?thesis
    by (intro conjI k example_names example_cleanup
        cleanup_keeps_latest [OF k example_names])
qed

subsection \<open>generate_map\<close>

text \<open>
  What the \<open>try\<close> block does to an exception, and what an unset URL gives.
\<close>

lemma generate_map_catches_body:
  assumes "environ w ''SHEET_URL'' = Some url" and "url \<noteq> []"
    and "GPXMapGenerator w = Inr generator"
  shows "\<exists>dict folder. generate_map w = Inr (dict, folder) \<and>
           (\<exists>b. map_of dict ''success'' = Some (Bool b)) \<and>
           (\<forall>e. generate_map_body w url = Inl e \<longrightarrow>
              dict = [(''success'', Bool False), (''error'', Str (str_exc e))])"
proof (cases "generate_map_body w url")
  case (Inl e)
  with assms show ?thesis by (auto simp: generate_map_def)
next
  case (Inr result)
  then have "\<exists>b. map_of (fst result) ''success'' = Some (Bool b)"
    by (auto simp: generate_map_body_def Let_def split: sum.splits prod.splits)
  with Inr assms show ?thesis
    by (cases result) (simp add: generate_map_def)
qed

lemma generate_map_url_unset:
  assumes "environ w ''SHEET_URL'' = None \<or> environ w ''SHEET_URL'' = Some []"
  shows "generate_map w =
           Inr ([(''success'', Bool False),
                 (''error'', Str ''SHEET_URL environment variable not set'')], maps_folder w)"
  using assms by (auto simp: generate_map_def)

text \<open>
  C8. Once the sheet URL is set, \<open>generate_map\<close> is meant to report every failure as
  a dictionary with the key \<open>success\<close>. The generator is constructed outside the
  \<open>try\<close> block, though: with \<open>SHEET_URL\<close> set and \<open>GOOGLE_SHEETS_CREDENTIALS\<close>
  unset, the constructor's \<open>ValueError\<close> leaves \<open>generate_map\<close>.
\<close>

theorem generate_map_credentials_unset:
  "generate_map example_world =
     Inl (Raised ValueError ''GOOGLE_SHEETS_CREDENTIALS environment variable not set'')"
  by (simp add: generate_map_def GPXMapGenerator_def get_credentials_from_env_def
      example_world_def)

end
